theory Spec2Isabelle
  imports Complex_Main
begin

section \<open>JavaScript values\<close>

text \<open>
  A JavaScript number is modelled by its exact rational value, together with the three
  non-finite doubles. The rounding of IEEE arithmetic and the sign of zero are not part of
  the model: a decimal literal such as \<open>0.3\<close> denotes the rational \<open>3/10\<close>.
\<close>

datatype jsnum = Finite rat | PosInf | NegInf | NaN

text \<open>
  The values that travel in request bodies and configuration objects. An object is an
  association list from keys to values; reading a key that is absent gives \<open>Undefined\<close>.
\<close>

datatype jsval =
    Undefined
  | Null
  | Boolean bool
  | Number jsnum
  | Str string
  | Array "jsval list"

type_synonym js_object = "(string \<times> jsval) list"

definition get :: "js_object \<Rightarrow> string \<Rightarrow> jsval" where
  "get obj k = (case map_of obj k of None \<Rightarrow> Undefined | Some v \<Rightarrow> v)"

text \<open>Truthiness of a number: everything but zero and NaN.\<close>

fun truthy_num :: "jsnum \<Rightarrow> bool" where
  "truthy_num (Finite r) = (r \<noteq> 0)"
| "truthy_num PosInf = True"
| "truthy_num NegInf = True"
| "truthy_num NaN = False"

fun truthy :: "jsval \<Rightarrow> bool" where
  "truthy Undefined = False"
| "truthy Null = False"
| "truthy (Boolean b) = b"
| "truthy (Number n) = truthy_num n"
| "truthy (Str s) = (s \<noteq> [])"
| "truthy (Array xs) = True"

text \<open>The operator \<open>a || b\<close>.\<close>

definition js_or :: "jsval \<Rightarrow> jsval \<Rightarrow> jsval" where
  "js_or a b = (if truthy a then a else b)"

text \<open>The comparisons \<open>n > 0\<close> and \<open>n <= 0\<close>; both are false on NaN.\<close>

fun gt0 :: "jsnum \<Rightarrow> bool" where
  "gt0 (Finite r) = (0 < r)"
| "gt0 PosInf = True"
| "gt0 NegInf = False"
| "gt0 NaN = False"

fun le0 :: "jsnum \<Rightarrow> bool" where
  "le0 (Finite r) = (r \<le> 0)"
| "le0 PosInf = False"
| "le0 NegInf = True"
| "le0 NaN = False"

subsection \<open>Strings\<close>

text \<open>
  A string is a list of code units; the model covers the code units below 256, where
  \<open>toLowerCase\<close> maps \<open>A\<close>--\<open>Z\<close> and the capital letters of Latin-1
  (\<open>0xC0\<close>--\<open>0xDE\<close> without the multiplication sign \<open>0xD7\<close>) to the
  code unit 32 above, and leaves every other code unit alone.
\<close>

definition lower_char :: "char \<Rightarrow> char" where
  "lower_char c =
     (let n = (of_char c :: nat)
      in if (65 \<le> n \<and> n \<le> 90) \<or> (192 \<le> n \<and> n \<le> 222 \<and> n \<noteq> 215)
         then char_of (n + 32) else c)"

definition toLowerCase :: "string \<Rightarrow> string" where
  "toLowerCase s = map lower_char s"

text \<open>\<open>s.lastIndexOf(c)\<close>: the index of the last occurrence, \<open>-1\<close> when there is none.\<close>

fun lastIndexOf :: "char \<Rightarrow> string \<Rightarrow> int" where
  "lastIndexOf c [] = -1"
| "lastIndexOf c (x # xs) =
     (let r = lastIndexOf c xs
      in if 0 \<le> r then r + 1 else if x = c then 0 else -1)"

text \<open>\<open>s.substring(start)\<close>: a negative start counts as 0, a start beyond the end as the end.\<close>

definition substring :: "string \<Rightarrow> int \<Rightarrow> string" where
  "substring s start = (if start < 0 then s else drop (nat start) s)"

text \<open>\<open>xs.join(sep)\<close>.\<close>

fun join :: "string \<Rightarrow> string list \<Rightarrow> string" where
  "join sep [] = []"
| "join sep [x] = x"
| "join sep (x # y # ys) = x @ sep @ join sep (y # ys)"

section \<open>Requests and effects\<close>

text \<open>
  What a handler does besides updating the component state: it shows an alert, navigates,
  or hands a request to the HTTP client. A handler returns the list of its effects in order.
\<close>

record js_file =
  name :: string
  fsize :: nat

datatype body = FormData js_file | JsonBody js_object

datatype request = GET string | POST string body

datatype effect = Alert string | Navigate string | Send request

text \<open>The JSON body of a request; a request without one has the empty object.\<close>

fun json_body :: "request \<Rightarrow> js_object" where
  "json_body (POST url (JsonBody b)) = b"
| "json_body rq = []"

section \<open>Upload page\<close>

subsection \<open>\<open>videoAPI.upload\<close>\<close>

definition videoAPI_upload :: "js_file \<Rightarrow> request" where
  "videoAPI_upload f = POST ''/videos/upload'' (FormData f)"

subsection \<open>State and handlers of \<open>UploadPage\<close>\<close>

record upload_state =
  selectedFile :: "js_file option"
  uploadProgress :: nat
  uploadedVideoId :: "string option"
  pollingVideo :: "string option"

definition upload_init :: upload_state where
  "upload_init =
     \<lparr>selectedFile = None, uploadProgress = 0, uploadedVideoId = None, pollingVideo = None\<rparr>"

text \<open>
  The rejection of an upload as the mutation's \<open>onError\<close> sees it: the server's
  \<open>detail\<close> when the response carries one, and the error's own message.
\<close>

record upload_error =
  detail :: "string option"
  message :: string

definition error_text :: "upload_error \<Rightarrow> string" where
  "error_text err =
     (case detail err of
        None \<Rightarrow> message err
      | Some d \<Rightarrow> if d \<noteq> [] then d else message err)"

definition validTypes :: "string list" where
  "validTypes = [''.mp4'', ''.avi'', ''.mov'', ''.mkv'', ''.wmv'']"

definition fileExt :: "string \<Rightarrow> string" where
  "fileExt n = toLowerCase (substring n (lastIndexOf CHR ''.'' n))"

definition maxSize :: nat where
  "maxSize = 500 * 1024 * 1024"

definition handleFileSelect :: "js_file \<Rightarrow> upload_state \<Rightarrow> upload_state \<times> effect list" where
  "handleFileSelect f s =
     (if fileExt (name f) \<notin> set validTypes
      then (s, [Alert (''Invalid file type. Allowed: '' @ join '', '' validTypes)])
      else if maxSize < fsize f
      then (s, [Alert ''File too large. Maximum size is 500MB''])
      else (s\<lparr>selectedFile := Some f\<rparr>, []))"

definition handleUpload :: "upload_state \<Rightarrow> upload_state \<times> effect list" where
  "handleUpload s =
     (case selectedFile s of
        None \<Rightarrow> (s, [Alert ''Please select a file first''])
      | Some f \<Rightarrow> (s, [Send (videoAPI_upload f)]))"

definition onSuccess :: "string \<Rightarrow> upload_state \<Rightarrow> upload_state \<times> effect list" where
  "onSuccess data_id s =
     (s\<lparr>uploadedVideoId := Some data_id, pollingVideo := Some data_id, uploadProgress := 100\<rparr>,
      [])"

definition onError :: "upload_error \<Rightarrow> upload_state \<Rightarrow> upload_state \<times> effect list" where
  "onError err s =
     (s\<lparr>uploadProgress := 0, selectedFile := None\<rparr>,
      [Alert (''Upload failed: '' @ error_text err)])"

text \<open>
  The events of the page: a file arrives through the file input or a drop (both call
  \<open>handleFileSelect\<close>), the operator removes the file or presses the upload button, and
  the mutation reports progress, success with the new job's id, or failure.
\<close>

datatype upload_event =
    FileChosen js_file
  | RemoveFile
  | UploadClicked
  | UploadProgress nat
  | UploadSucceeded string
  | UploadFailed upload_error

fun upload_step :: "upload_event \<Rightarrow> upload_state \<Rightarrow> upload_state \<times> effect list" where
  "upload_step (FileChosen f) s = handleFileSelect f s"
| "upload_step RemoveFile s = (s\<lparr>selectedFile := None\<rparr>, [])"
| "upload_step UploadClicked s = handleUpload s"
| "upload_step (UploadProgress p) s = (s\<lparr>uploadProgress := p\<rparr>, [])"
| "upload_step (UploadSucceeded i) s = onSuccess i s"
| "upload_step (UploadFailed err) s = onError err s"

fun upload_run :: "upload_event list \<Rightarrow> upload_state \<Rightarrow> upload_state \<times> effect list" where
  "upload_run [] s = (s, [])"
| "upload_run (e # es) s =
     (let (s1, out1) = upload_step e s;
          (s2, out2) = upload_run es s1
      in (s2, out1 @ out2))"

text \<open>A file that passes both checks of \<open>handleFileSelect\<close>.\<close>

definition valid_file :: "js_file \<Rightarrow> bool" where
  "valid_file g = (fileExt (name g) \<in> set validTypes \<and> fsize g \<le> maxSize)"

section \<open>Video detail page\<close>

text \<open>
  The job snapshot that \<open>videoAPI.getById\<close> returns, with the fields the page's logic
  reads. The status is the wire string.
\<close>

record video =
  video_id :: string
  status :: string
  is_calibrated :: bool

subsection \<open>\<open>videoAPI.getById\<close> and \<open>videoAPI.process\<close>\<close>

definition videoAPI_getById :: "string \<Rightarrow> request" where
  "videoAPI_getById i = GET (''/videos/'' @ i)"

text \<open>
  The configuration is optional (\<open>config = {}\<close>): \<open>None\<close> is a call without it. Each
  field of the body is \<open>config.field || default\<close>.
\<close>

definition videoAPI_process :: "string \<Rightarrow> js_object option \<Rightarrow> request" where
  "videoAPI_process i config_arg =
     (let config = (case config_arg of None \<Rightarrow> [] | Some c \<Rightarrow> c)
      in POST (''/videos/'' @ i @ ''/process'')
           (JsonBody
             [(''confidence_threshold'',
                 js_or (get config ''confidence_threshold'') (Number (Finite (3 / 10)))),
              (''iou_threshold'',
                 js_or (get config ''iou_threshold'') (Number (Finite (7 / 10)))),
              (''enable_speed_calculation'',
                 js_or (get config ''enable_speed_calculation'') (Boolean False)),
              (''speed_limit'',
                 js_or (get config ''speed_limit'') (Number (Finite 80)))]))"

subsection \<open>The \<open>refetchInterval\<close> of the job query\<close>




subsection \<open>\<open>handleProcess\<close>\<close>

text \<open>
  \<open>confirmed\<close> is the operator's answer to the confirmation dialog, which is shown only
  on the second branch.
\<close>

definition handleProcess :: "string \<Rightarrow> js_object \<Rightarrow> video \<Rightarrow> bool \<Rightarrow> effect list" where
  "handleProcess i processingConfig video confirmed =
     (if truthy (get processingConfig ''enable_speed_calculation'') \<and> \<not> is_calibrated video
      then [Navigate (''/videos/'' @ video_id video @ ''/calibrate'')]
      else if confirmed
      then [Send (videoAPI_process i (Some processingConfig))]
      else [])"

section \<open>Calibration page\<close>

type_synonym point = "jsnum \<times> jsnum"

subsection \<open>The fetched calibration\<close>

text \<open>
  The response of \<open>videoAPI.getCalibration\<close> as the page reads it: an object whose
  \<open>calibration_data\<close>, when present, may carry \<open>mode\<close>, \<open>points\<close> and
  \<open>reference_distance\<close>. A key that is absent or null is \<open>None\<close>.
\<close>

record calibration_data =
  mode :: "string option"
  saved_points :: "point list option"
  reference_distance :: "jsnum option"

record calibration_response =
  calibration_data :: "calibration_data option"

subsection \<open>\<open>videoAPI.saveCalibration\<close>\<close>

definition videoAPI_saveCalibration :: "string \<Rightarrow> js_object \<Rightarrow> request" where
  "videoAPI_saveCalibration i calibrationData =
     POST (''/videos/'' @ i @ ''/calibrate'') (JsonBody calibrationData)"

subsection \<open>State of \<open>CalibrationPage\<close>\<close>

text \<open>
  The hidden \<open>img\<close> element is not rendered, so its \<open>width\<close> and \<open>height\<close> are the
  natural size of the frame. A canvas element starts at 300 by 150.
\<close>

record image_el =
  image_width :: nat
  image_height :: nat

record canvas_el =
  canvas_width :: nat
  canvas_height :: nat

record cal_state =
  imageLoaded :: bool
  videoFrame :: "string option"
  points :: "point list"
  referenceDistance :: jsnum
  canvasRef :: "canvas_el option"
  imageRef :: "image_el option"

definition cal_init :: cal_state where
  "cal_init =
     \<lparr>imageLoaded = False, videoFrame = None, points = [], referenceDistance = Finite 10,
      canvasRef = None, imageRef = None\<rparr>"

text \<open>The click and the canvas's bounding rectangle at the time of the click.\<close>

record mouse_event =
  clientX :: rat
  clientY :: rat

record dom_rect =
  rect_left :: rat
  rect_top :: rat
  rect_width :: rat
  rect_height :: rat

text \<open>Division and multiplication of numbers, for a finite dividend, divisor and factor.\<close>

definition js_div :: "rat \<Rightarrow> rat \<Rightarrow> jsnum" where
  "js_div a b =
     (if b = 0 then (if a = 0 then NaN else if 0 < a then PosInf else NegInf)
      else Finite (a / b))"

fun js_mul :: "jsnum \<Rightarrow> rat \<Rightarrow> jsnum" where
  "js_mul (Finite q) c = Finite (q * c)"
| "js_mul PosInf c = (if c = 0 then NaN else if 0 < c then PosInf else NegInf)"
| "js_mul NegInf c = (if c = 0 then NaN else if 0 < c then NegInf else PosInf)"
| "js_mul NaN c = NaN"

subsection \<open>Handlers\<close>

text \<open>
  \<open>drawCanvas\<close> sizes the canvas to the image and then paints the image, the markers and
  the outline. Only the resizing changes the state; the painting is left out.
\<close>

definition drawCanvas :: "cal_state \<Rightarrow> cal_state" where
  "drawCanvas s =
     (case (canvasRef s, imageRef s) of
        (Some c, Some im) \<Rightarrow>
          if imageLoaded s
          then s\<lparr>canvasRef := Some \<lparr>canvas_width = image_width im,
                                 canvas_height = image_height im\<rparr>\<rparr>
          else s
      | _ \<Rightarrow> s)"

text \<open>The effect that pre-fills the editor from the fetched calibration.\<close>

definition prefill :: "calibration_response option \<Rightarrow> cal_state \<Rightarrow> cal_state" where
  "prefill calibration s =
     (case calibration of
        None \<Rightarrow> s
      | Some resp \<Rightarrow>
          (case calibration_data resp of
             None \<Rightarrow> s
           | Some d \<Rightarrow>
               if mode d = Some ''four_point''
               then
                 (let savedPoints = (case saved_points d of None \<Rightarrow> [] | Some ps \<Rightarrow> ps);
                      dist = reference_distance d;
                      s1 = (if length savedPoints = 4 then s\<lparr>points := savedPoints\<rparr> else s)
                  in case dist of
                       None \<Rightarrow> s1
                     | Some n \<Rightarrow>
                         if truthy_num n \<and> gt0 n then s1\<lparr>referenceDistance := n\<rparr> else s1)
               else s))"

definition handleCanvasClick :: "mouse_event \<Rightarrow> dom_rect \<Rightarrow> cal_state \<Rightarrow> cal_state" where
  "handleCanvasClick e rect s =
     (case canvasRef s of
        None \<Rightarrow> s
      | Some c \<Rightarrow>
          if 4 \<le> length (points s) then s
          else
            (let x = js_mul (js_div (clientX e - rect_left rect) (rect_width rect))
                            (of_nat (canvas_width c));
                 y = js_mul (js_div (clientY e - rect_top rect) (rect_height rect))
                            (of_nat (canvas_height c))
             in s\<lparr>points := points s @ [(x, y)]\<rparr>))"

text \<open>The recorded points as the array of two-element arrays that is sent.\<close>

definition points_value :: "point list \<Rightarrow> jsval" where
  "points_value ps = Array (map (\<lambda>(x, y). Array [Number x, Number y]) ps)"

definition handleSaveCalibration :: "string \<Rightarrow> cal_state \<Rightarrow> effect list" where
  "handleSaveCalibration i s =
     (if length (points s) \<noteq> 4
      then [Alert ''Please click exactly 4 points on the frame'']
      else if \<not> truthy_num (referenceDistance s) \<or> le0 (referenceDistance s)
      then [Alert ''Please enter a valid reference distance'']
      else [Send (videoAPI_saveCalibration i
                    [(''points'', points_value (points s)),
                     (''reference_distance'', Number (referenceDistance s))])])"

definition handleReset :: "cal_state \<Rightarrow> cal_state" where
  "handleReset s = s\<lparr>points := [], referenceDistance := Finite 10\<rparr>"

text \<open>
  The events of the page, for the job \<open>i\<close> of the route. The frame arrives and the image
  and the canvas are mounted; the image finishes loading; the calibration query delivers
  its data; the operator clicks on the canvas, edits the distance (the event carries the
  result of \<open>parseFloat\<close>), saves or resets. \<open>drawCanvas\<close> runs after each change of the
  frame, the loaded flag or the points.
\<close>

datatype cal_event =
    FrameFetched string image_el
  | ImageLoad
  | CalibrationFetched "calibration_response option"
  | CanvasClick mouse_event dom_rect
  | DistanceInput jsnum
  | SaveClicked
  | ResetClicked

fun cal_step :: "string \<Rightarrow> cal_event \<Rightarrow> cal_state \<Rightarrow> cal_state \<times> effect list" where
  "cal_step i (FrameFetched url im) s =
     (drawCanvas (s\<lparr>videoFrame := Some url,
                    canvasRef := (case canvasRef s of
                                 None \<Rightarrow> Some \<lparr>canvas_width = 300, canvas_height = 150\<rparr>
                               | Some c \<Rightarrow> Some c),
                    imageRef := Some im\<rparr>), [])"
| "cal_step i ImageLoad s = (drawCanvas (s\<lparr>imageLoaded := True\<rparr>), [])"
| "cal_step i (CalibrationFetched c) s = (drawCanvas (prefill c s), [])"
| "cal_step i (CanvasClick e rect) s = (drawCanvas (handleCanvasClick e rect s), [])"
| "cal_step i (DistanceInput n) s = (s\<lparr>referenceDistance := n\<rparr>, [])"
| "cal_step i SaveClicked s = (s, handleSaveCalibration i s)"
| "cal_step i ResetClicked s = (drawCanvas (handleReset s), [])"

fun cal_run :: "string \<Rightarrow> cal_event list \<Rightarrow> cal_state \<Rightarrow> cal_state \<times> effect list" where
  "cal_run i [] s = (s, [])"
| "cal_run i (e # es) s =
     (let (s1, out1) = cal_step i e s;
          (s2, out2) = cal_run i es s1
      in (s2, out1 @ out2))"

subsection \<open>The documented wire shape\<close>

text \<open>
  The shape the interface description gives for a calibration: an object with \<open>mode\<close>
  equal to \<open>four_point\<close>, four coordinate pairs under \<open>points\<close>, and a number under
  \<open>reference_distance\<close>.
\<close>

fun is_coordinate_pair :: "jsval \<Rightarrow> bool" where
  "is_coordinate_pair (Array [Number x, Number y]) = True"
| "is_coordinate_pair v = False"

definition four_pairs :: "jsval \<Rightarrow> bool" where
  "four_pairs v =
     (case v of Array ps \<Rightarrow> length ps = 4 \<and> list_all is_coordinate_pair ps | _ \<Rightarrow> False)"

definition is_number :: "jsval \<Rightarrow> bool" where
  "is_number v = (case v of Number n \<Rightarrow> True | _ \<Rightarrow> False)"

definition documented_wire_shape :: "js_object \<Rightarrow> bool" where
  "documented_wire_shape obj =
     (get obj ''mode'' = Str ''four_point''
      \<and> four_pairs (get obj ''points'')
      \<and> is_number (get obj ''reference_distance''))"

section \<open>Properties of the status synchronizer\<close>





section \<open>Properties of the start of processing\<close>

text \<open>
  Claim C5. When speed calculation is enabled in the processing configuration and the job
  is not calibrated, the start-processing action sends no request, whatever the operator
  would answer to a confirmation: its only effect is the navigation to the calibration
  page of the job.
\<close>

theorem C5_speed_on_uncalibrated_redirects:
  assumes "get processingConfig ''enable_speed_calculation'' = Boolean True"
    and "\<not> is_calibrated video"
  shows "handleProcess i processingConfig video confirmed
           = [Navigate (''/videos/'' @ video_id video @ ''/calibrate'')]
         \<and> (\<forall>rq. Send rq \<notin> set (handleProcess i processingConfig video confirmed))"
  using assms by (simp add: handleProcess_def)

theorem C5_speed_on_uncalibrated_redirects_witness:
  "get [(''confidence_threshold'', Number (Finite (3 / 10))),
        (''enable_speed_calculation'', Boolean True)] ''enable_speed_calculation'' = Boolean True
   \<and> \<not> is_calibrated \<lparr>video_id = ''7'', status = ''uploaded'', is_calibrated = False\<rparr>
   \<and> handleProcess ''7''
        [(''confidence_threshold'', Number (Finite (3 / 10))),
         (''enable_speed_calculation'', Boolean True)]
        \<lparr>video_id = ''7'', status = ''uploaded'', is_calibrated = False\<rparr> True
      = [Navigate ''/videos/7/calibrate'']"
  using C5_speed_on_uncalibrated_redirects
    [of "[(''confidence_threshold'', Number (Finite (3 / 10))),
          (''enable_speed_calculation'', Boolean True)]"
        "\<lparr>video_id = ''7'', status = ''uploaded'', is_calibrated = False\<rparr>" "''7''" True]
  by (simp add: get_def)

section \<open>Properties of the processing configuration\<close>

lemma js_or_undefined: "js_or Undefined d = d"
  by (simp add: js_or_def)

lemma js_or_truthy: "truthy a \<Longrightarrow> js_or a d = a"
  by (simp add: js_or_def)

lemma js_or_boolean: "js_or (Boolean b) (Boolean False) = Boolean b"
  by (cases b) (simp_all add: js_or_def)

lemma json_body_process:
  "json_body (videoAPI_process i (Some config)) =
     [(''confidence_threshold'',
         js_or (get config ''confidence_threshold'') (Number (Finite (3 / 10)))),
      (''iou_threshold'', js_or (get config ''iou_threshold'') (Number (Finite (7 / 10)))),
      (''enable_speed_calculation'',
         js_or (get config ''enable_speed_calculation'') (Boolean False)),
      (''speed_limit'', js_or (get config ''speed_limit'') (Number (Finite 80)))]"
  by (simp add: videoAPI_process_def)

lemma sent_confidence_threshold:
  "get (json_body (videoAPI_process i (Some config))) ''confidence_threshold''
     = js_or (get config ''confidence_threshold'') (Number (Finite (3 / 10)))"
  by (simp add: json_body_process get_def)

lemma sent_iou_threshold:
  "get (json_body (videoAPI_process i (Some config))) ''iou_threshold''
     = js_or (get config ''iou_threshold'') (Number (Finite (7 / 10)))"
  by (simp add: json_body_process get_def)

lemma sent_enable_speed_calculation:
  "get (json_body (videoAPI_process i (Some config))) ''enable_speed_calculation''
     = js_or (get config ''enable_speed_calculation'') (Boolean False)"
  by (simp add: json_body_process get_def)

lemma sent_speed_limit:
  "get (json_body (videoAPI_process i (Some config))) ''speed_limit''
     = js_or (get config ''speed_limit'') (Number (Finite 80))"
  by (simp add: json_body_process get_def)

text \<open>
  Claim C9. In the body that \<open>videoAPI.process\<close> sends, a field the caller left out has
  its default (0.3, 0.7, false, 80), also when the whole configuration is left out; a
  threshold in the range from 0 (excluded) to 1, a positive speed limit and either boolean
  are sent as the caller gave them.
\<close>

theorem C9_defaults_and_passthrough:
  "(get config ''confidence_threshold'' = Undefined \<longrightarrow>
      get (json_body (videoAPI_process i (Some config))) ''confidence_threshold''
        = Number (Finite (3 / 10)))
   \<and> (get config ''iou_threshold'' = Undefined \<longrightarrow>
      get (json_body (videoAPI_process i (Some config))) ''iou_threshold''
        = Number (Finite (7 / 10)))
   \<and> (get config ''enable_speed_calculation'' = Undefined \<longrightarrow>
      get (json_body (videoAPI_process i (Some config))) ''enable_speed_calculation''
        = Boolean False)
   \<and> (get config ''speed_limit'' = Undefined \<longrightarrow>
      get (json_body (videoAPI_process i (Some config))) ''speed_limit''
        = Number (Finite 80))
   \<and> (\<forall>r. get config ''confidence_threshold'' = Number (Finite r) \<and> 0 < r \<and> r \<le> 1 \<longrightarrow>
      get (json_body (videoAPI_process i (Some config))) ''confidence_threshold''
        = Number (Finite r))
   \<and> (\<forall>r. get config ''iou_threshold'' = Number (Finite r) \<and> 0 < r \<and> r \<le> 1 \<longrightarrow>
      get (json_body (videoAPI_process i (Some config))) ''iou_threshold''
        = Number (Finite r))
   \<and> (\<forall>b. get config ''enable_speed_calculation'' = Boolean b \<longrightarrow>
      get (json_body (videoAPI_process i (Some config))) ''enable_speed_calculation''
        = Boolean b)
   \<and> (\<forall>r. get config ''speed_limit'' = Number (Finite r) \<and> 0 < r \<longrightarrow>
      get (json_body (videoAPI_process i (Some config))) ''speed_limit''
        = Number (Finite r))
   \<and> json_body (videoAPI_process i None)
        = [(''confidence_threshold'', Number (Finite (3 / 10))),
           (''iou_threshold'', Number (Finite (7 / 10))),
           (''enable_speed_calculation'', Boolean False),
           (''speed_limit'', Number (Finite 80))]"
proof -
  have none: "json_body (videoAPI_process i None)
        = [(''confidence_threshold'', Number (Finite (3 / 10))),
           (''iou_threshold'', Number (Finite (7 / 10))),
           (''enable_speed_calculation'', Boolean False),
           (''speed_limit'', Number (Finite 80))]"
    by (simp add: videoAPI_process_def get_def js_or_def)
  show ?thesis
    unfolding sent_confidence_threshold sent_iou_threshold sent_enable_speed_calculation
      sent_speed_limit
    using none by (simp add: js_or_undefined js_or_truthy js_or_boolean)
qed

theorem C9_defaults_and_passthrough_witness:
  "get [(''confidence_threshold'', Number (Finite (1 / 2))),
          (''enable_speed_calculation'', Boolean True),
          (''speed_limit'', Number (Finite 60))] ''iou_threshold'' = Undefined
   \<and> get [(''confidence_threshold'', Number (Finite (1 / 2))),
          (''enable_speed_calculation'', Boolean True),
          (''speed_limit'', Number (Finite 60))] ''confidence_threshold'' = Number (Finite (1 / 2))
   \<and> (0::rat) < 1 / 2 \<and> (1 / 2 :: rat) \<le> 1
   \<and> get [(''confidence_threshold'', Number (Finite (1 / 2))),
          (''enable_speed_calculation'', Boolean True),
          (''speed_limit'', Number (Finite 60))] ''enable_speed_calculation'' = Boolean True
   \<and> get [(''confidence_threshold'', Number (Finite (1 / 2))),
          (''enable_speed_calculation'', Boolean True),
          (''speed_limit'', Number (Finite 60))] ''speed_limit'' = Number (Finite 60)
   \<and> (0::rat) < 60
   \<and> json_body (videoAPI_process ''7''
        (Some [(''confidence_threshold'', Number (Finite (1 / 2))),
          (''enable_speed_calculation'', Boolean True),
          (''speed_limit'', Number (Finite 60))]))
      = [(''confidence_threshold'', Number (Finite (1 / 2))),
         (''iou_threshold'', Number (Finite (7 / 10))),
         (''enable_speed_calculation'', Boolean True),
         (''speed_limit'', Number (Finite 60))]"
  using C9_defaults_and_passthrough
    [of "[(''confidence_threshold'', Number (Finite (1 / 2))),
          (''enable_speed_calculation'', Boolean True),
          (''speed_limit'', Number (Finite 60))]" "''7''"]
  by (simp add: get_def videoAPI_process_def js_or_def)

section \<open>Properties of file names and extensions\<close>

lemma of_char_lower_char:
  "of_char (lower_char c) =
     (let n = (of_char c :: nat)
      in if (65 \<le> n \<and> n \<le> 90) \<or> (192 \<le> n \<and> n \<le> 222 \<and> n \<noteq> 215) then n + 32 else n)"
  by (auto simp add: lower_char_def Let_def)

lemma lower_char_dot: "lower_char c = CHR ''.'' \<longleftrightarrow> c = CHR ''.''"
proof -
  have "lower_char c = CHR ''.'' \<longleftrightarrow> (of_char (lower_char c) :: nat) = of_char (CHR ''.'')"
    by (metis of_char_eq_iff)
  also have "\<dots> \<longleftrightarrow> (of_char c :: nat) = of_char (CHR ''.'')"
    by (auto simp add: of_char_lower_char Let_def)
  also have "\<dots> \<longleftrightarrow> c = CHR ''.''"
    by (metis of_char_eq_iff)
  finally show ?thesis .
qed

lemma dot_in_toLowerCase: "CHR ''.'' \<in> set (toLowerCase s) \<longleftrightarrow> CHR ''.'' \<in> set s"
proof (induction s)
  case Nil
  then show ?case by (simp add: toLowerCase_def)
next
  case (Cons c cs)
  have "(CHR ''.'' = lower_char c) = (CHR ''.'' = c)"
    using lower_char_dot[of c] by metis
  with Cons show ?case by (simp add: toLowerCase_def)
qed

lemma lastIndexOf_absent: "c \<notin> set s \<Longrightarrow> lastIndexOf c s = -1"
  by (induction s) (auto simp: Let_def)

lemma lastIndexOf_last_occurrence:
  "c \<notin> set suf \<Longrightarrow> lastIndexOf c (pre @ c # suf) = int (length pre)"
  by (induction pre) (auto simp: Let_def lastIndexOf_absent)

lemma lastIndexOf_toLowerCase:
  "lastIndexOf CHR ''.'' (toLowerCase s) = lastIndexOf CHR ''.'' s"
  by (induction s) (auto simp: Let_def toLowerCase_def lower_char_dot)

lemma fileExt_of_lowered:
  "fileExt n = substring (toLowerCase n) (lastIndexOf CHR ''.'' (toLowerCase n))"
proof -
  have "toLowerCase (substring n k) = substring (toLowerCase n) k" for k
    by (simp add: substring_def toLowerCase_def drop_map)
  then show ?thesis
    by (simp add: fileExt_def lastIndexOf_toLowerCase)
qed

lemma fileExt_case_insensitive:
  "toLowerCase n = toLowerCase m \<Longrightarrow> fileExt n = fileExt m"
  by (simp add: fileExt_of_lowered)

lemma fileExt_last_dot:
  "CHR ''.'' \<notin> set suf \<Longrightarrow> fileExt (pre @ CHR ''.'' # suf) = toLowerCase (CHR ''.'' # suf)"
  by (simp add: fileExt_def lastIndexOf_last_occurrence substring_def)

lemma fileExt_no_dot: "CHR ''.'' \<notin> set n \<Longrightarrow> fileExt n = toLowerCase n"
  by (simp add: fileExt_def lastIndexOf_absent substring_def)

lemma no_dot_not_allowed: "CHR ''.'' \<notin> set n \<Longrightarrow> fileExt n \<notin> set validTypes"
proof
  assume nd: "CHR ''.'' \<notin> set n" and "fileExt n \<in> set validTypes"
  then have "toLowerCase n \<in> set validTypes"
    by (simp add: fileExt_no_dot)
  then have "CHR ''.'' \<in> set (toLowerCase n)"
    by (auto simp: validTypes_def)
  with nd show False
    by (simp add: dot_in_toLowerCase)
qed

lemma fileExt_clip_MP4: "fileExt ''clip.MP4'' = ''.mp4''"
  by code_simp

lemma fileExt_clip_mp4: "fileExt ''clip.mp4'' = ''.mp4''"
  by code_simp

lemma fileExt_notes_txt: "fileExt ''notes.txt'' = ''.txt''"
  by code_simp

lemma join_validTypes: "join '', '' validTypes = ''.mp4, .avi, .mov, .mkv, .wmv''"
  by (simp add: validTypes_def)

lemma handleFileSelect_bad_type:
  "fileExt (name f) \<notin> set validTypes \<Longrightarrow>
     handleFileSelect f s
       = (s, [Alert ''Invalid file type. Allowed: .mp4, .avi, .mov, .mkv, .wmv''])"
  by (simp add: handleFileSelect_def join_validTypes)

lemma handleFileSelect_too_large:
  "fileExt (name f) \<in> set validTypes \<Longrightarrow> maxSize < fsize f \<Longrightarrow>
     handleFileSelect f s = (s, [Alert ''File too large. Maximum size is 500MB''])"
  by (simp add: handleFileSelect_def)

lemma handleFileSelect_accepts:
  "fileExt (name f) \<in> set validTypes \<Longrightarrow> fsize f \<le> maxSize \<Longrightarrow>
     handleFileSelect f s = (s\<lparr>selectedFile := Some f\<rparr>, [])"
  by (simp add: handleFileSelect_def)

text \<open>The ceiling is 524288000 bytes: a file of that size passes, one byte more does not.\<close>

lemma handleFileSelect_at_ceiling:
  "handleFileSelect \<lparr>name = ''clip.mp4'', fsize = 524288001\<rparr> upload_init
     = (upload_init, [Alert ''File too large. Maximum size is 500MB''])
   \<and> handleFileSelect \<lparr>name = ''clip.mp4'', fsize = 524288000\<rparr> upload_init
     = (upload_init\<lparr>selectedFile := Some \<lparr>name = ''clip.mp4'', fsize = 524288000\<rparr>\<rparr>, [])"
  by (simp add: handleFileSelect_def fileExt_clip_mp4 validTypes_def maxSize_def)

text \<open>
  Claim C10. The type check of the upload page ignores the case of the file name (the
  file \<open>clip.MP4\<close> is accepted, and two names that differ only in case get the same
  answer), takes the extension from the last dot of the name, and rejects every name
  without a dot.
\<close>

theorem C10_extension_check:
  "(name f = ''clip.MP4'' \<and> fsize f \<le> maxSize \<longrightarrow>
      handleFileSelect f s = (s\<lparr>selectedFile := Some f\<rparr>, []))
   \<and> (toLowerCase (name f) = toLowerCase (name g) \<and> fsize f = fsize g \<longrightarrow>
      snd (handleFileSelect f s) = snd (handleFileSelect g s))
   \<and> (CHR ''.'' \<notin> set suf \<longrightarrow>
      fileExt (pre @ CHR ''.'' # suf) = toLowerCase (CHR ''.'' # suf))
   \<and> (CHR ''.'' \<notin> set (name f) \<longrightarrow>
      handleFileSelect f s
        = (s, [Alert ''Invalid file type. Allowed: .mp4, .avi, .mov, .mkv, .wmv'']))"
proof -
  have a: "handleFileSelect f s = (s\<lparr>selectedFile := Some f\<rparr>, [])"
    if "name f = ''clip.MP4'' \<and> fsize f \<le> maxSize"
  proof -
    from that have "fileExt (name f) \<in> set validTypes"
      by (simp add: fileExt_clip_MP4 validTypes_def)
    with that show ?thesis
      by (simp add: handleFileSelect_accepts)
  qed
  have b: "snd (handleFileSelect f s) = snd (handleFileSelect g s)"
    if "toLowerCase (name f) = toLowerCase (name g) \<and> fsize f = fsize g"
    using that fileExt_case_insensitive[of "name f" "name g"]
    by (simp add: handleFileSelect_def)
  have c: "fileExt (pre @ CHR ''.'' # suf) = toLowerCase (CHR ''.'' # suf)"
    if "CHR ''.'' \<notin> set suf"
    using that by (rule fileExt_last_dot)
  have d: "handleFileSelect f s
        = (s, [Alert ''Invalid file type. Allowed: .mp4, .avi, .mov, .mkv, .wmv''])"
    if "CHR ''.'' \<notin> set (name f)"
    using that by (simp add: no_dot_not_allowed handleFileSelect_bad_type)
  from a b c d show ?thesis by blast
qed

theorem C10_extension_check_witness:
  "name \<lparr>name = ''clip.MP4'', fsize = 1000\<rparr> = ''clip.MP4''
   \<and> fsize \<lparr>name = ''clip.MP4'', fsize = 1000\<rparr> \<le> maxSize
   \<and> handleFileSelect \<lparr>name = ''clip.MP4'', fsize = 1000\<rparr> upload_init
       = (upload_init\<lparr>selectedFile := Some \<lparr>name = ''clip.MP4'', fsize = 1000\<rparr>\<rparr>, [])
   \<and> toLowerCase (name \<lparr>name = ''clip.MP4'', fsize = 1000\<rparr>)
       = toLowerCase (name \<lparr>name = ''CLIP.mp4'', fsize = 1000\<rparr>)
   \<and> snd (handleFileSelect \<lparr>name = ''clip.MP4'', fsize = 1000\<rparr> upload_init)
       = snd (handleFileSelect \<lparr>name = ''CLIP.mp4'', fsize = 1000\<rparr> upload_init)
   \<and> CHR ''.'' \<notin> set ''MP4''
   \<and> fileExt (''a.b'' @ CHR ''.'' # ''MP4'') = toLowerCase (CHR ''.'' # ''MP4'')
   \<and> CHR ''.'' \<notin> set (name \<lparr>name = ''clipmp4'', fsize = 1000\<rparr>)
   \<and> handleFileSelect \<lparr>name = ''clipmp4'', fsize = 1000\<rparr> upload_init
       = (upload_init, [Alert ''Invalid file type. Allowed: .mp4, .avi, .mov, .mkv, .wmv''])"
proof -
  have low: "toLowerCase ''clip.MP4'' = toLowerCase ''CLIP.mp4''"
    by code_simp
  have sz: "(1000::nat) \<le> maxSize"
    by (simp add: maxSize_def)
  show ?thesis
    using low sz
      C10_extension_check [of "\<lparr>name = ''clip.MP4'', fsize = 1000\<rparr>" upload_init
        "\<lparr>name = ''CLIP.mp4'', fsize = 1000\<rparr>" "''MP4''" "''a.b''"]
      C10_extension_check [of "\<lparr>name = ''clipmp4'', fsize = 1000\<rparr>" upload_init
        "\<lparr>name = ''clipmp4'', fsize = 1000\<rparr>" "''MP4''" "''a.b''"]
    by auto
qed

section \<open>Properties of the upload page\<close>

lemma upload_step_keeps_valid:
  assumes "\<forall>g. selectedFile s = Some g \<longrightarrow> valid_file g"
  shows "(\<forall>g. selectedFile (fst (upload_step e s)) = Some g \<longrightarrow> valid_file g)
       \<and> (\<forall>g. Send (videoAPI_upload g) \<in> set (snd (upload_step e s)) \<longrightarrow> valid_file g)"
  using assms
  by (cases e)
     (auto simp: handleFileSelect_def handleUpload_def onSuccess_def onError_def
        videoAPI_upload_def valid_file_def split: option.splits)

lemma upload_run_sends_valid:
  assumes "\<forall>g. selectedFile s = Some g \<longrightarrow> valid_file g"
  shows "\<forall>g. Send (videoAPI_upload g) \<in> set (snd (upload_run evs s)) \<longrightarrow> valid_file g"
  using assms
proof (induction evs arbitrary: s)
  case Nil
  then show ?case by simp
next
  case (Cons e es)
  obtain s1 out1 where st: "upload_step e s = (s1, out1)"
    by (cases "upload_step e s")
  obtain s2 out2 where rn: "upload_run es s1 = (s2, out2)"
    by (cases "upload_run es s1")
  from upload_step_keeps_valid[OF Cons.prems, of e] st
  have inv1: "\<forall>g. selectedFile s1 = Some g \<longrightarrow> valid_file g"
    and out1: "\<forall>g. Send (videoAPI_upload g) \<in> set out1 \<longrightarrow> valid_file g"
    by simp_all
  from Cons.IH[OF inv1] rn
  have out2: "\<forall>g. Send (videoAPI_upload g) \<in> set out2 \<longrightarrow> valid_file g"
    by simp
  show ?case using st rn out1 out2 by auto
qed

text \<open>
  Claim C6. A file whose extension is not in the allow-list, or whose size is above
  500 MB, is refused where it is chosen: the page state is unchanged and the only effect
  is an alert. Whatever the operator does on the page afterwards or before, no upload
  request for that file is ever sent.
\<close>

theorem C6_invalid_file_never_sent:
  assumes "fileExt (name f) \<notin> set validTypes \<or> maxSize < fsize f"
  shows "(\<exists>msg. handleFileSelect f s = (s, [Alert msg]))
         \<and> (\<forall>evs. Send (videoAPI_upload f) \<notin> set (snd (upload_run evs upload_init)))"
proof
  show "\<exists>msg. handleFileSelect f s = (s, [Alert msg])"
    using assms by (auto simp: handleFileSelect_def)
next
  have "\<forall>g. selectedFile upload_init = Some g \<longrightarrow> valid_file g"
    by (simp add: upload_init_def)
  then have "\<forall>g. Send (videoAPI_upload g) \<in> set (snd (upload_run evs upload_init))
                 \<longrightarrow> valid_file g"
    for evs
    by (rule upload_run_sends_valid)
  moreover have "\<not> valid_file f"
    using assms by (auto simp: valid_file_def)
  ultimately show "\<forall>evs. Send (videoAPI_upload f) \<notin> set (snd (upload_run evs upload_init))"
    by blast
qed

theorem C6_invalid_file_never_sent_witness:
  "handleFileSelect \<lparr>name = ''notes.txt'', fsize = 1000\<rparr> upload_init
     = (upload_init, [Alert ''Invalid file type. Allowed: .mp4, .avi, .mov, .mkv, .wmv''])
   \<and> Send (videoAPI_upload \<lparr>name = ''notes.txt'', fsize = 1000\<rparr>)
       \<notin> set (snd (upload_run [FileChosen \<lparr>name = ''notes.txt'', fsize = 1000\<rparr>, UploadClicked]
                      upload_init))"
proof -
  have h: "fileExt (name \<lparr>name = ''notes.txt'', fsize = 1000\<rparr>) \<notin> set validTypes
      \<or> maxSize < fsize \<lparr>name = ''notes.txt'', fsize = 1000\<rparr>"
    by (simp add: fileExt_notes_txt validTypes_def)
  have bad: "fileExt (name \<lparr>name = ''notes.txt'', fsize = 1000\<rparr>) \<notin> set validTypes"
    by (simp add: fileExt_notes_txt validTypes_def)
  show ?thesis
    using C6_invalid_file_never_sent [OF h, of upload_init]
      handleFileSelect_bad_type [OF bad, of upload_init]
    by blast
qed

text \<open>
  Claim C8, as the code has it. When an upload fails, the page clears the selected file,
  so it is back in the state with no file chosen; it sets the progress to 0 and shows the
  error in an alert: the server's detail when there is a non-empty one, the error's own
  message otherwise. The ids of an earlier upload are left as they were.
\<close>

theorem C8_upload_failure_clears_selection:
  "selectedFile (fst (upload_step (UploadFailed err) s)) = None
   \<and> uploadProgress (fst (upload_step (UploadFailed err) s)) = 0
   \<and> uploadedVideoId (fst (upload_step (UploadFailed err) s)) = uploadedVideoId s
   \<and> pollingVideo (fst (upload_step (UploadFailed err) s)) = pollingVideo s
   \<and> snd (upload_step (UploadFailed err) s)
       = [Alert (''Upload failed: '' @
            (case detail err of
               None \<Rightarrow> message err
             | Some d \<Rightarrow> if d = [] then message err else d))]"
  by (simp add: onError_def error_text_def split: option.split)

theorem C8_upload_failure_clears_selection_witness:
  "upload_step (UploadFailed \<lparr>detail = Some ''Invalid file format'', message = ''Request failed''\<rparr>)
     \<lparr>selectedFile = Some \<lparr>name = ''clip.mp4'', fsize = 1000\<rparr>, uploadProgress = 40,
      uploadedVideoId = None, pollingVideo = None\<rparr>
   = (\<lparr>selectedFile = None, uploadProgress = 0, uploadedVideoId = None, pollingVideo = None\<rparr>,
      [Alert ''Upload failed: Invalid file format''])"
  using C8_upload_failure_clears_selection
    [of "\<lparr>detail = Some ''Invalid file format'', message = ''Request failed''\<rparr>"
        "\<lparr>selectedFile = Some \<lparr>name = ''clip.mp4'', fsize = 1000\<rparr>, uploadProgress = 40,
          uploadedVideoId = None, pollingVideo = None\<rparr>"]
  by (simp add: onError_def error_text_def)

text \<open>
  The claim as the specification words it fails: the file that was chosen and sent is no
  longer held after the failure.
\<close>

theorem C8_upload_failure_counterexample:
  "selectedFile (fst (upload_run [FileChosen \<lparr>name = ''clip.mp4'', fsize = 1000\<rparr>, UploadClicked]
                        upload_init))
     = Some \<lparr>name = ''clip.mp4'', fsize = 1000\<rparr>
   \<and> selectedFile (fst (upload_run [FileChosen \<lparr>name = ''clip.mp4'', fsize = 1000\<rparr>, UploadClicked,
                                    UploadFailed \<lparr>detail = None, message = ''Network Error''\<rparr>]
                        upload_init))
     = None"
proof -
  have sel: "handleFileSelect \<lparr>name = ''clip.mp4'', fsize = 1000\<rparr> upload_init
     = (upload_init\<lparr>selectedFile := Some \<lparr>name = ''clip.mp4'', fsize = 1000\<rparr>\<rparr>, [])"
    by (simp add: handleFileSelect_def fileExt_clip_mp4 validTypes_def maxSize_def)
  show ?thesis
    by (simp add: sel handleUpload_def onError_def)
qed

section \<open>Properties of the calibration page\<close>

lemma points_drawCanvas: "points (drawCanvas s) = points s"
  by (simp add: drawCanvas_def split: option.split)

lemma referenceDistance_drawCanvas: "referenceDistance (drawCanvas s) = referenceDistance s"
  by (simp add: drawCanvas_def split: option.split)



lemma handleCanvasClick_accepted:
  "canvasRef s = Some c \<Longrightarrow> length (points s) < 4 \<Longrightarrow>
     points (handleCanvasClick e rect s)
       = points s @
         [(js_mul (js_div (clientX e - rect_left rect) (rect_width rect)) (of_nat (canvas_width c)),
           js_mul (js_div (clientY e - rect_top rect) (rect_height rect)) (of_nat (canvas_height c)))]"
  by (simp add: handleCanvasClick_def Let_def)

lemma handleCanvasClick_full: "4 \<le> length (points s) \<Longrightarrow> handleCanvasClick e rect s = s"
  by (simp add: handleCanvasClick_def split: option.split)

lemma length_points_handleCanvasClick:
  "length (points s) \<le> 4 \<Longrightarrow> length (points (handleCanvasClick e rect s)) \<le> 4"
  by (auto simp: handleCanvasClick_def Let_def split: option.split)

lemma length_points_prefill:
  "length (points s) \<le> 4 \<Longrightarrow> length (points (prefill c s)) \<le> 4"
  by (auto simp: prefill_def Let_def split: option.split)

lemma length_points_cal_step:
  "length (points s) \<le> 4 \<Longrightarrow> length (points (fst (cal_step i e s))) \<le> 4"
  by (cases e)
     (simp_all add: points_drawCanvas length_points_handleCanvasClick length_points_prefill
        handleReset_def)

lemma length_points_cal_run:
  "length (points s) \<le> 4 \<Longrightarrow> length (points (fst (cal_run i evs s))) \<le> 4"
proof (induction evs arbitrary: s)
  case Nil
  then show ?case by simp
next
  case (Cons e es)
  from Cons.prems have "length (points (fst (cal_step i e s))) \<le> 4"
    by (rule length_points_cal_step)
  then have "length (points (fst (cal_run i es (fst (cal_step i e s))))) \<le> 4"
    by (rule Cons.IH)
  then show ?case
    by (simp add: split_beta Let_def)
qed



text \<open>
  Claim C7. Whatever happens on the calibration page, the recorded points never number
  more than four. A click that arrives when four points exist leaves the points as they
  are; a click on the mounted canvas with fewer than four points appends exactly one
  point at the end.
\<close>

theorem C7_at_most_four_points:
  "length (points (fst (cal_run i evs cal_init))) \<le> 4
   \<and> (4 \<le> length (points s) \<longrightarrow>
        points (fst (cal_step i (CanvasClick e rect) s)) = points s)
   \<and> (length (points s) < 4 \<and> canvasRef s \<noteq> None \<longrightarrow>
        (\<exists>p. points (fst (cal_step i (CanvasClick e rect) s)) = points s @ [p]))"
proof -
  have a: "length (points (fst (cal_run i evs cal_init))) \<le> 4"
    by (rule length_points_cal_run) (simp add: cal_init_def)
  have b: "points (fst (cal_step i (CanvasClick e rect) s)) = points s"
    if "4 \<le> length (points s)"
    using that by (simp add: points_drawCanvas handleCanvasClick_full)
  have c: "\<exists>p. points (fst (cal_step i (CanvasClick e rect) s)) = points s @ [p]"
    if "length (points s) < 4 \<and> canvasRef s \<noteq> None"
  proof -
    from that obtain cv where "canvasRef s = Some cv" by auto
    with that show ?thesis
      by (simp add: points_drawCanvas handleCanvasClick_accepted)
  qed
  from a b c show ?thesis by blast
qed

theorem C7_at_most_four_points_witness:
  "points (fst (cal_step ''7''
        (CanvasClick \<lparr>clientX = 110, clientY = 50\<rparr>
                     \<lparr>rect_left = 10, rect_top = 20, rect_width = 640, rect_height = 360\<rparr>)
        \<lparr>imageLoaded = True, videoFrame = Some ''blob:frame'',
          points = [(Finite 1, Finite 2), (Finite 3, Finite 4),
                    (Finite 5, Finite 6), (Finite 7, Finite 8)],
          referenceDistance = Finite 10,
          canvasRef = Some \<lparr>canvas_width = 1920, canvas_height = 1080\<rparr>,
          imageRef = Some \<lparr>image_width = 1920, image_height = 1080\<rparr>\<rparr>))
     = [(Finite 1, Finite 2), (Finite 3, Finite 4), (Finite 5, Finite 6), (Finite 7, Finite 8)]
   \<and> length (points (fst (cal_step ''7''
        (CanvasClick \<lparr>clientX = 110, clientY = 50\<rparr>
                     \<lparr>rect_left = 10, rect_top = 20, rect_width = 640, rect_height = 360\<rparr>)
        \<lparr>imageLoaded = True, videoFrame = Some ''blob:frame'',
          points = [(Finite 1, Finite 2)],
          referenceDistance = Finite 10,
          canvasRef = Some \<lparr>canvas_width = 1920, canvas_height = 1080\<rparr>,
          imageRef = Some \<lparr>image_width = 1920, image_height = 1080\<rparr>\<rparr>))) = 2"
proof -
  have four: "4 \<le> length (points
        \<lparr>imageLoaded = True, videoFrame = Some ''blob:frame'',
          points = [(Finite 1, Finite 2), (Finite 3, Finite 4),
                    (Finite 5, Finite 6), (Finite 7, Finite 8)],
          referenceDistance = Finite 10,
          canvasRef = Some \<lparr>canvas_width = 1920, canvas_height = 1080\<rparr>,
          imageRef = Some \<lparr>image_width = 1920, image_height = 1080\<rparr>\<rparr>)"
    by simp
  have one: "length (points
        \<lparr>imageLoaded = True, videoFrame = Some ''blob:frame'',
          points = [(Finite 1, Finite 2)],
          referenceDistance = Finite 10,
          canvasRef = Some \<lparr>canvas_width = 1920, canvas_height = 1080\<rparr>,
          imageRef = Some \<lparr>image_width = 1920, image_height = 1080\<rparr>\<rparr>) < 4
      \<and> canvasRef
        \<lparr>imageLoaded = True, videoFrame = Some ''blob:frame'',
          points = [(Finite 1, Finite 2)],
          referenceDistance = Finite 10,
          canvasRef = Some \<lparr>canvas_width = 1920, canvas_height = 1080\<rparr>,
          imageRef = Some \<lparr>image_width = 1920, image_height = 1080\<rparr>\<rparr> \<noteq> None"
    by simp
  show ?thesis
    using four one
      C7_at_most_four_points
        [of "''7''" "[]"
          "\<lparr>imageLoaded = True, videoFrame = Some ''blob:frame'',
          points = [(Finite 1, Finite 2), (Finite 3, Finite 4),
                    (Finite 5, Finite 6), (Finite 7, Finite 8)],
          referenceDistance = Finite 10,
          canvasRef = Some \<lparr>canvas_width = 1920, canvas_height = 1080\<rparr>,
          imageRef = Some \<lparr>image_width = 1920, image_height = 1080\<rparr>\<rparr>"
          "\<lparr>clientX = 110, clientY = 50\<rparr>"
          "\<lparr>rect_left = 10, rect_top = 20, rect_width = 640, rect_height = 360\<rparr>"]
      C7_at_most_four_points
        [of "''7''" "[]"
          "\<lparr>imageLoaded = True, videoFrame = Some ''blob:frame'',
          points = [(Finite 1, Finite 2)],
          referenceDistance = Finite 10,
          canvasRef = Some \<lparr>canvas_width = 1920, canvas_height = 1080\<rparr>,
          imageRef = Some \<lparr>image_width = 1920, image_height = 1080\<rparr>\<rparr>"
          "\<lparr>clientX = 110, clientY = 50\<rparr>"
          "\<lparr>rect_left = 10, rect_top = 20, rect_width = 640, rect_height = 360\<rparr>"]
    by auto
qed

lemma not_positive_iff: "(\<not> truthy_num n \<or> le0 n) \<longleftrightarrow> \<not> gt0 n"
  by (cases n) auto

lemma gt0_truthy: "gt0 n \<Longrightarrow> truthy_num n"
  by (cases n) auto

lemma handleSaveCalibration_rejects:
  "length (points s) \<noteq> 4 \<or> \<not> gt0 (referenceDistance s) \<Longrightarrow>
     \<exists>msg. handleSaveCalibration i s = [Alert msg]"
  using not_positive_iff[of "referenceDistance s"]
  by (auto simp: handleSaveCalibration_def)

lemma handleSaveCalibration_sends:
  "length (points s) = 4 \<Longrightarrow> gt0 (referenceDistance s) \<Longrightarrow>
     handleSaveCalibration i s
       = [Send (POST (''/videos/'' @ i @ ''/calibrate'')
                 (JsonBody [(''points'', points_value (points s)),
                            (''reference_distance'', Number (referenceDistance s))]))]"
  using not_positive_iff[of "referenceDistance s"]
  by (simp add: handleSaveCalibration_def videoAPI_saveCalibration_def)

lemma handleSaveCalibration_send_only_if:
  "Send rq \<in> set (handleSaveCalibration i s) \<Longrightarrow>
     length (points s) = 4 \<and> gt0 (referenceDistance s)"
  using not_positive_iff[of "referenceDistance s"]
  by (auto simp: handleSaveCalibration_def split: if_splits)

text \<open>
  Claim C4. Saving with fewer than four points, or with a reference distance that is not
  a positive number (zero, negative or NaN), changes nothing and only shows an alert: no
  request is sent. A save request is sent only when there are exactly four points and the
  reference distance is greater than 0.
\<close>

theorem C4_save_validates_locally:
  "(length (points s) < 4 \<or> \<not> gt0 (referenceDistance s) \<longrightarrow>
      (\<exists>msg. cal_step i SaveClicked s = (s, [Alert msg])))
   \<and> (\<forall>rq. Send rq \<in> set (snd (cal_step i SaveClicked s)) \<longrightarrow>
        length (points s) = 4 \<and> gt0 (referenceDistance s))"
proof -
  have a: "\<exists>msg. cal_step i SaveClicked s = (s, [Alert msg])"
    if "length (points s) < 4 \<or> \<not> gt0 (referenceDistance s)"
  proof -
    from that have "length (points s) \<noteq> 4 \<or> \<not> gt0 (referenceDistance s)"
      by auto
    then show ?thesis
      using handleSaveCalibration_rejects[of s i] by simp
  qed
  have b: "length (points s) = 4 \<and> gt0 (referenceDistance s)"
    if "Send rq \<in> set (snd (cal_step i SaveClicked s))" for rq
    using that handleSaveCalibration_send_only_if[of rq i s] by simp
  from a b show ?thesis by blast
qed

theorem C4_save_validates_locally_witness:
  "snd (cal_step ''7'' SaveClicked
        \<lparr>imageLoaded = True, videoFrame = Some ''blob:frame'',
          points = [(Finite 1, Finite 2), (Finite 3, Finite 4), (Finite 5, Finite 6)],
          referenceDistance = Finite 10,
          canvasRef = Some \<lparr>canvas_width = 1920, canvas_height = 1080\<rparr>,
          imageRef = Some \<lparr>image_width = 1920, image_height = 1080\<rparr>\<rparr>)
     = [Alert ''Please click exactly 4 points on the frame'']
   \<and> snd (cal_step ''7'' SaveClicked
        \<lparr>imageLoaded = True, videoFrame = Some ''blob:frame'',
          points = [(Finite 1, Finite 2), (Finite 3, Finite 4),
                    (Finite 5, Finite 6), (Finite 7, Finite 8)],
          referenceDistance = NaN,
          canvasRef = Some \<lparr>canvas_width = 1920, canvas_height = 1080\<rparr>,
          imageRef = Some \<lparr>image_width = 1920, image_height = 1080\<rparr>\<rparr>)
     = [Alert ''Please enter a valid reference distance'']
   \<and> Send (POST ''/videos/7/calibrate''
               (JsonBody
                 [(''points'',
                   Array [Array [Number (Finite 1), Number (Finite 2)],
                          Array [Number (Finite 3), Number (Finite 4)],
                          Array [Number (Finite 5), Number (Finite 6)],
                          Array [Number (Finite 7), Number (Finite 8)]]),
                  (''reference_distance'', Number (Finite 10))]))
       \<in> set (snd (cal_step ''7'' SaveClicked
        \<lparr>imageLoaded = True, videoFrame = Some ''blob:frame'',
          points = [(Finite 1, Finite 2), (Finite 3, Finite 4),
                    (Finite 5, Finite 6), (Finite 7, Finite 8)],
          referenceDistance = Finite 10,
          canvasRef = Some \<lparr>canvas_width = 1920, canvas_height = 1080\<rparr>,
          imageRef = Some \<lparr>image_width = 1920, image_height = 1080\<rparr>\<rparr>))"
  using C4_save_validates_locally
    [of "\<lparr>imageLoaded = True, videoFrame = Some ''blob:frame'',
          points = [(Finite 1, Finite 2), (Finite 3, Finite 4), (Finite 5, Finite 6)],
          referenceDistance = Finite 10,
          canvasRef = Some \<lparr>canvas_width = 1920, canvas_height = 1080\<rparr>,
          imageRef = Some \<lparr>image_width = 1920, image_height = 1080\<rparr>\<rparr>" "''7''"]
    C4_save_validates_locally
    [of "\<lparr>imageLoaded = True, videoFrame = Some ''blob:frame'',
          points = [(Finite 1, Finite 2), (Finite 3, Finite 4),
                    (Finite 5, Finite 6), (Finite 7, Finite 8)],
          referenceDistance = NaN,
          canvasRef = Some \<lparr>canvas_width = 1920, canvas_height = 1080\<rparr>,
          imageRef = Some \<lparr>image_width = 1920, image_height = 1080\<rparr>\<rparr>" "''7''"]
    C4_save_validates_locally
    [of "\<lparr>imageLoaded = True, videoFrame = Some ''blob:frame'',
          points = [(Finite 1, Finite 2), (Finite 3, Finite 4),
                    (Finite 5, Finite 6), (Finite 7, Finite 8)],
          referenceDistance = Finite 10,
          canvasRef = Some \<lparr>canvas_width = 1920, canvas_height = 1080\<rparr>,
          imageRef = Some \<lparr>image_width = 1920, image_height = 1080\<rparr>\<rparr>" "''7''"]
  by (simp add: handleSaveCalibration_def videoAPI_saveCalibration_def points_value_def)

lemma is_coordinate_pair_points:
  "list_all is_coordinate_pair (map (\<lambda>(x, y). Array [Number x, Number y]) ps)"
  by (induction ps) auto

lemma four_pairs_points_value: "four_pairs (points_value ps) \<longleftrightarrow> length ps = 4"
  by (simp add: four_pairs_def points_value_def is_coordinate_pair_points)

text \<open>
  Claim C3, as the code has it. The body of every save request has the two keys
  \<open>points\<close> and \<open>reference_distance\<close> and no \<open>mode\<close>: under \<open>points\<close> the four
  recorded coordinate pairs, under \<open>reference_distance\<close> a number greater than 0. When the
  fetched response carries under \<open>calibration_data\<close> a calibration with mode
  \<open>four_point\<close>, exactly four points and a reference distance greater than 0, the page
  takes both into its editable state.
\<close>

theorem C3_saved_body_and_prefill:
  "(\<forall>rq. Send rq \<in> set (snd (cal_step i SaveClicked s)) \<longrightarrow>
      rq = POST (''/videos/'' @ i @ ''/calibrate'')
             (JsonBody [(''points'', points_value (points s)),
                        (''reference_distance'', Number (referenceDistance s))])
      \<and> get (json_body rq) ''mode'' = Undefined
      \<and> four_pairs (get (json_body rq) ''points'')
      \<and> is_number (get (json_body rq) ''reference_distance'')
      \<and> gt0 (referenceDistance s))
   \<and> (calibration_data resp = Some d \<and> mode d = Some ''four_point''
        \<and> saved_points d = Some ps \<and> length ps = 4
        \<and> reference_distance d = Some n \<and> gt0 n \<longrightarrow>
      points (fst (cal_step i (CalibrationFetched (Some resp)) s)) = ps
      \<and> referenceDistance (fst (cal_step i (CalibrationFetched (Some resp)) s)) = n)"
proof -
  have a: "rq = POST (''/videos/'' @ i @ ''/calibrate'')
             (JsonBody [(''points'', points_value (points s)),
                        (''reference_distance'', Number (referenceDistance s))])
      \<and> get (json_body rq) ''mode'' = Undefined
      \<and> four_pairs (get (json_body rq) ''points'')
      \<and> is_number (get (json_body rq) ''reference_distance'')
      \<and> gt0 (referenceDistance s)"
    if "Send rq \<in> set (snd (cal_step i SaveClicked s))" for rq
  proof -
    from that have ok: "length (points s) = 4 \<and> gt0 (referenceDistance s)"
      using handleSaveCalibration_send_only_if[of rq i s] by simp
    with that have rq: "rq = POST (''/videos/'' @ i @ ''/calibrate'')
             (JsonBody [(''points'', points_value (points s)),
                        (''reference_distance'', Number (referenceDistance s))])"
      by (simp add: handleSaveCalibration_sends)
    show ?thesis
      using ok by (simp add: rq get_def four_pairs_points_value is_number_def)
  qed
  have b: "points (fst (cal_step i (CalibrationFetched (Some resp)) s)) = ps
      \<and> referenceDistance (fst (cal_step i (CalibrationFetched (Some resp)) s)) = n"
    if "calibration_data resp = Some d \<and> mode d = Some ''four_point''
        \<and> saved_points d = Some ps \<and> length ps = 4
        \<and> reference_distance d = Some n \<and> gt0 n"
    using that
    by (simp add: points_drawCanvas referenceDistance_drawCanvas prefill_def gt0_truthy)
  from a b show ?thesis by blast
qed

theorem C3_saved_body_and_prefill_witness:
  "Send (POST ''/videos/7/calibrate''
          (JsonBody
            [(''points'',
                   Array [Array [Number (Finite 1), Number (Finite 2)],
                          Array [Number (Finite 3), Number (Finite 4)],
                          Array [Number (Finite 5), Number (Finite 6)],
                          Array [Number (Finite 7), Number (Finite 8)]]),
                  (''reference_distance'', Number (Finite 10))]))
     \<in> set (snd (cal_step ''7'' SaveClicked
         \<lparr>imageLoaded = True, videoFrame = Some ''blob:frame'',
          points = [(Finite 1, Finite 2), (Finite 3, Finite 4),
                    (Finite 5, Finite 6), (Finite 7, Finite 8)],
          referenceDistance = Finite 10,
          canvasRef = Some \<lparr>canvas_width = 1920, canvas_height = 1080\<rparr>,
          imageRef = Some \<lparr>image_width = 1920, image_height = 1080\<rparr>\<rparr>))
   \<and> get [(''points'',
                   Array [Array [Number (Finite 1), Number (Finite 2)],
                          Array [Number (Finite 3), Number (Finite 4)],
                          Array [Number (Finite 5), Number (Finite 6)],
                          Array [Number (Finite 7), Number (Finite 8)]]),
                  (''reference_distance'', Number (Finite 10))] ''mode'' = Undefined
   \<and> gt0 (Finite 12)
   \<and> points (fst (cal_step ''7''
        (CalibrationFetched
          (Some \<lparr>calibration_data = Some \<lparr>mode = Some ''four_point'',
            saved_points = Some [(Finite 1, Finite 2), (Finite 3, Finite 4),
                                 (Finite 5, Finite 6), (Finite 7, Finite 8)],
            reference_distance = Some (Finite 12)\<rparr>\<rparr>)) cal_init))
      = [(Finite 1, Finite 2), (Finite 3, Finite 4), (Finite 5, Finite 6), (Finite 7, Finite 8)]
   \<and> referenceDistance (fst (cal_step ''7''
        (CalibrationFetched
          (Some \<lparr>calibration_data = Some \<lparr>mode = Some ''four_point'',
            saved_points = Some [(Finite 1, Finite 2), (Finite 3, Finite 4),
                                 (Finite 5, Finite 6), (Finite 7, Finite 8)],
            reference_distance = Some (Finite 12)\<rparr>\<rparr>)) cal_init))
      = Finite 12"
proof -
  have snd_save: "handleSaveCalibration ''7''
         \<lparr>imageLoaded = True, videoFrame = Some ''blob:frame'',
          points = [(Finite 1, Finite 2), (Finite 3, Finite 4),
                    (Finite 5, Finite 6), (Finite 7, Finite 8)],
          referenceDistance = Finite 10,
          canvasRef = Some \<lparr>canvas_width = 1920, canvas_height = 1080\<rparr>,
          imageRef = Some \<lparr>image_width = 1920, image_height = 1080\<rparr>\<rparr>
     = [Send (POST ''/videos/7/calibrate''
               (JsonBody
                 [(''points'',
                   Array [Array [Number (Finite 1), Number (Finite 2)],
                          Array [Number (Finite 3), Number (Finite 4)],
                          Array [Number (Finite 5), Number (Finite 6)],
                          Array [Number (Finite 7), Number (Finite 8)]]),
                  (''reference_distance'', Number (Finite 10))]))]"
    by (simp add: handleSaveCalibration_def videoAPI_saveCalibration_def points_value_def)
  show ?thesis
    using C3_saved_body_and_prefill
      [of "''7''"
          "\<lparr>imageLoaded = True, videoFrame = Some ''blob:frame'',
          points = [(Finite 1, Finite 2), (Finite 3, Finite 4),
                    (Finite 5, Finite 6), (Finite 7, Finite 8)],
          referenceDistance = Finite 10,
          canvasRef = Some \<lparr>canvas_width = 1920, canvas_height = 1080\<rparr>,
          imageRef = Some \<lparr>image_width = 1920, image_height = 1080\<rparr>\<rparr>"
          "\<lparr>calibration_data = Some \<lparr>mode = Some ''four_point'',
            saved_points = Some [(Finite 1, Finite 2), (Finite 3, Finite 4),
                                 (Finite 5, Finite 6), (Finite 7, Finite 8)],
            reference_distance = Some (Finite 12)\<rparr>\<rparr>"
          "\<lparr>mode = Some ''four_point'',
            saved_points = Some [(Finite 1, Finite 2), (Finite 3, Finite 4),
                                 (Finite 5, Finite 6), (Finite 7, Finite 8)],
            reference_distance = Some (Finite 12)\<rparr>"
          "[(Finite 1, Finite 2), (Finite 3, Finite 4), (Finite 5, Finite 6), (Finite 7, Finite 8)]"
          "Finite 12"]
    by (simp add: snd_save prefill_def drawCanvas_def cal_init_def get_def)
qed

text \<open>
  The claim as the specification words it fails: the body sent for four recorded points
  and the distance 10 is not in the documented wire shape, since it has no \<open>mode\<close>.
\<close>

theorem C3_saved_body_counterexample:
  "snd (cal_step ''7'' SaveClicked
         \<lparr>imageLoaded = True, videoFrame = Some ''blob:frame'',
          points = [(Finite 1, Finite 2), (Finite 3, Finite 4),
                    (Finite 5, Finite 6), (Finite 7, Finite 8)],
          referenceDistance = Finite 10,
          canvasRef = Some \<lparr>canvas_width = 1920, canvas_height = 1080\<rparr>,
          imageRef = Some \<lparr>image_width = 1920, image_height = 1080\<rparr>\<rparr>)
     = [Send (POST ''/videos/7/calibrate''
               (JsonBody
                 [(''points'',
                   Array [Array [Number (Finite 1), Number (Finite 2)],
                          Array [Number (Finite 3), Number (Finite 4)],
                          Array [Number (Finite 5), Number (Finite 6)],
                          Array [Number (Finite 7), Number (Finite 8)]]),
                  (''reference_distance'', Number (Finite 10))]))]
   \<and> \<not> documented_wire_shape
         [(''points'',
                   Array [Array [Number (Finite 1), Number (Finite 2)],
                          Array [Number (Finite 3), Number (Finite 4)],
                          Array [Number (Finite 5), Number (Finite 6)],
                          Array [Number (Finite 7), Number (Finite 8)]]),
                  (''reference_distance'', Number (Finite 10))]"
  by (simp add: handleSaveCalibration_def videoAPI_saveCalibration_def points_value_def
      documented_wire_shape_def get_def)

end
